theory Spec2Isabelle
  imports Main "HOL-Library.AList"
begin

section \<open>The snow execution module (\<^verbatim>\<open>_modules/snow_api.py\<close>)\<close>

text \<open>
  The module is a thin layer over the pysnow client library and the remote table API.
  Its own code is embedded function by function below. What it calls is modelled
  beside it: Python's \<^verbatim>\<open>str.split\<close>, list indexing and \<^verbatim>\<open>itertools.islice\<close>,
  the host's \<^verbatim>\<open>config.get\<close>, and the methods of pysnow's \<^verbatim>\<open>Response\<close> that the
  module uses, each following the documented behaviour of the library. Logging and
  transport failures (network, authentication) are left out.
\<close>

subsection \<open>Errors\<close>

datatype error =
    IndexError
  | ValueError
  | TypeError
  | KeyError string
  | InvalidUsage
  | NoResults
  | MultipleResults

subsection \<open>Python built-ins used by the module\<close>

text \<open>\<^verbatim>\<open>s.split(sep)\<close> with a one-character separator: cuts at every occurrence,
  keeps empty pieces, and always returns at least one piece.\<close>

fun split :: "char \<Rightarrow> string \<Rightarrow> string list" where
  "split c [] = [[]]"
| "split c (x # xs) =
     (if x = c then [] # split c xs
      else (case split c xs of
              [] \<Rightarrow> [[x]]
            | p # ps \<Rightarrow> (x # p) # ps))"

text \<open>\<^verbatim>\<open>xs[i]\<close> for a non-negative literal index: IndexError out of range.\<close>

definition index :: "'a list \<Rightarrow> nat \<Rightarrow> error + 'a" where
  "index xs i = (if i < length xs then Inr (xs ! i) else Inl IndexError)"

text \<open>
  \<^verbatim>\<open>list(islice(it, stop))\<close>. The iterator is the list of the items it has not yet
  produced. Before each item islice compares its count with \<^verbatim>\<open>stop\<close> and asks the
  iterator only when the count is below it. The result is the items taken and how many
  items were drawn from the iterator.
\<close>

fun islice_list :: "nat \<Rightarrow> 'a list \<Rightarrow> 'a list \<times> nat" where
  "islice_list 0 it = ([], 0)"
| "islice_list (Suc n) [] = ([], 0)"
| "islice_list (Suc n) (x # it) =
     (case islice_list n it of (ys, k) \<Rightarrow> (x # ys, Suc k))"

text \<open>\<^verbatim>\<open>sys.maxsize\<close>, the largest index of the interpreter: its value on a 64-bit build.\<close>

definition sys_maxsize :: int where
  "sys_maxsize = 2 ^ 63 - 1"

text \<open>\<^verbatim>\<open>islice\<close> checks \<^verbatim>\<open>stop\<close> when it is constructed, whatever the iterator holds: a
  negative value and a value above \<^verbatim>\<open>sys.maxsize\<close> are both rejected with ValueError.\<close>

definition islice :: "'a list \<Rightarrow> int \<Rightarrow> error + ('a list \<times> nat)" where
  "islice it stop =
     (if stop < 0 \<or> sys_maxsize < stop then Inl ValueError
      else Inr (islice_list (nat stop) it))"

subsection \<open>Configuration\<close>

text \<open>
  The \<^verbatim>\<open>service_now\<close> section of the host's configuration: absent, or a dictionary of
  string values. \<^verbatim>\<open>config.get('service_now:k')\<close> returns the value under \<^verbatim>\<open>k\<close>, and its
  default, the empty string, when the section or the key is absent.
\<close>

type_synonym config = "(string \<times> string) list option"

definition config_get :: "config \<Rightarrow> string \<Rightarrow> string" where
  "config_get cfg k =
     (case cfg of
        None \<Rightarrow> []
      | Some d \<Rightarrow> (case map_of d k of None \<Rightarrow> [] | Some v \<Rightarrow> v))"

datatype virtual_result = VName string | VFalse

definition virtualname :: string where
  "virtualname = ''snow''"

text \<open>\<^verbatim>\<open>__virtual__\<close>: the loop over the three keys, then the test of \<^verbatim>\<open>PYSNOW_EXISTS\<close>.
  A string is false in Python exactly when it is empty.\<close>

definition virtual :: "config \<Rightarrow> bool \<Rightarrow> virtual_result" where
  "virtual cfg pysnow_exists =
     (let virtual_return =
            fold (\<lambda>k vr. if config_get cfg k = [] then VFalse else vr)
                 [''username'', ''password'', ''instance''] (VName virtualname)
      in if \<not> pysnow_exists then VFalse else virtual_return)"

subsection \<open>The remote system and the client library\<close>

text \<open>
  A record of a remote table: its \<^verbatim>\<open>sys_id\<close>, which every record of the remote system
  carries, and its other fields (\<open>attrs\<close>). A query is a dictionary of required field values, which
  the remote system combines with AND.
\<close>

record snow_record =
  sys_id :: string
  attrs :: "(string \<times> string) list"

type_synonym query = "(string \<times> string) list"

definition field :: "snow_record \<Rightarrow> string \<Rightarrow> string option" where
  "field r k = (if k = ''sys_id'' then Some (sys_id r) else map_of (attrs r) k)"

definition matches :: "query \<Rightarrow> snow_record \<Rightarrow> bool" where
  "matches q r = list_all (\<lambda>(k, v). field r k = Some v) q"

datatype call = Get string query | Put string string query

text \<open>
  The world the module acts on: the remote tables (each a list of records in the order
  the remote system yields them), the requests sent so far, and the number of records
  drawn so far from streamed responses.
\<close>

record world =
  tables :: "string \<Rightarrow> snow_record list"
  calls :: "call list"
  pulled :: nat

definition select :: "world \<Rightarrow> string \<Rightarrow> query \<Rightarrow> snow_record list" where
  "select w t q = filter (matches q) (tables w t)"

text \<open>A pysnow \<^verbatim>\<open>Response\<close>: the resource it came from and the records of its body.\<close>

record response =
  r_table :: string
  r_items :: "snow_record list"

text \<open>\<^verbatim>\<open>Resource.get(query=q, stream=True)\<close> sends the GET request at once. The module
  passes no \<^verbatim>\<open>limit\<close>, so the request carries the library's default limit and the remote
  system yields at most that many of the matching records, in its order.\<close>

definition default_limit :: nat where
  "default_limit = 10000"

definition response_records :: "world \<Rightarrow> string \<Rightarrow> query \<Rightarrow> snow_record list" where
  "response_records w t q = take default_limit (select w t q)"

definition resource_get :: "string \<Rightarrow> query \<Rightarrow> world \<Rightarrow> response \<times> world" where
  "resource_get t q w =
     (\<lparr>r_table = t, r_items = response_records w t q\<rparr>, w\<lparr>calls := calls w @ [Get t q]\<rparr>)"

text \<open>\<^verbatim>\<open>Response.one()\<close>: exactly one record, NoResults on an empty result,
  MultipleResults on more than one.\<close>

definition response_one :: "response \<Rightarrow> error + snow_record" where
  "response_one r =
     (case r_items r of
        [] \<Rightarrow> Inl NoResults
      | [x] \<Rightarrow> Inr x
      | _ \<Rightarrow> Inl MultipleResults)"

text \<open>\<^verbatim>\<open>Response.one_or_none()\<close>: \<^verbatim>\<open>one()\<close> with NoResults caught and turned into None.\<close>

definition response_one_or_none :: "response \<Rightarrow> error + snow_record option" where
  "response_one_or_none r =
     (case response_one r of
        Inl NoResults \<Rightarrow> Inr None
      | Inl e \<Rightarrow> Inl e
      | Inr x \<Rightarrow> Inr (Some x))"

text \<open>\<^verbatim>\<open>Response.all()\<close> on a streamed response: an iterator over the records.\<close>

definition response_all :: "response \<Rightarrow> snow_record list" where
  "response_all r = r_items r"

text \<open>\<^verbatim>\<open>Response.first()\<close>: \<^verbatim>\<open>next(self.all())\<close>, NoResults when the iterator is
  exhausted at once. One record is drawn from the stream when there is one.\<close>

definition response_first :: "response \<Rightarrow> world \<Rightarrow> (error + snow_record) \<times> world" where
  "response_first r w =
     (case response_all r of
        [] \<Rightarrow> (Inl NoResults, w)
      | x # _ \<Rightarrow> (Inr x, w\<lparr>pulled := Suc (pulled w)\<rparr>))"

text \<open>The truth value of a \<^verbatim>\<open>Response\<close> object: the class defines neither
  \<^verbatim>\<open>__bool__\<close> nor \<^verbatim>\<open>__len__\<close>, so every instance is true.\<close>

definition response_truthy :: "response \<Rightarrow> bool" where
  "response_truthy r = True"

text \<open>The remote system applies a payload to a record field by field; fields the payload
  does not name keep their values, and the \<^verbatim>\<open>sys_id\<close> is not changed.
  \<open>AList.update\<close> replaces the value of a key that is present and appends a new key.\<close>

definition apply_payload :: "query \<Rightarrow> snow_record \<Rightarrow> snow_record" where
  "apply_payload p r = r\<lparr>attrs := fold (\<lambda>(k, v). AList.update k v) p (attrs r)\<rparr>"

text \<open>The PUT request on \<^verbatim>\<open>/table/t/sid\<close>: the record is updated in place and the
  response carries the updated record.\<close>

definition remote_put :: "string \<Rightarrow> snow_record \<Rightarrow> query \<Rightarrow> world \<Rightarrow> response \<times> world" where
  "remote_put t r p w =
     (\<lparr>r_table = t, r_items = [apply_payload p r]\<rparr>,
      w\<lparr>tables := (tables w)(t := map (\<lambda>x. if sys_id x = sys_id r then apply_payload p x else x)
                                    (tables w t)),
        calls := calls w @ [Put t (sys_id r) p]\<rparr>)"

text \<open>\<^verbatim>\<open>Resource.update(query, payload)\<close>: fetches the one record the query selects,
  then sends the PUT request for its \<^verbatim>\<open>sys_id\<close>.\<close>

definition resource_update :: "string \<Rightarrow> query \<Rightarrow> query \<Rightarrow> world \<Rightarrow> (error + response) \<times> world" where
  "resource_update t q p w =
     (case resource_get t q w of (resp, w1) \<Rightarrow>
        (case response_one resp of
           Inl e \<Rightarrow> (Inl e, w1)
         | Inr r \<Rightarrow> (case remote_put t r p w1 of (resp2, w2) \<Rightarrow> (Inr resp2, w2))))"

text \<open>\<^verbatim>\<open>Response.update(payload)\<close>: \<^verbatim>\<open>self['sys_id']\<close> is \<^verbatim>\<open>self.one()\<close> followed by the
  lookup of the field, then the resource's update on that \<^verbatim>\<open>sys_id\<close>.\<close>

definition response_update :: "response \<Rightarrow> query \<Rightarrow> world \<Rightarrow> (error + response) \<times> world" where
  "response_update r p w =
     (case response_one r of
        Inl e \<Rightarrow> (Inl e, w)
      | Inr x \<Rightarrow> resource_update (r_table r) [(''sys_id'', sys_id x)] p w)"

text \<open>\<^verbatim>\<open>pysnow.Client(instance, user, password)\<close> validates its arguments and opens no
  connection.\<close>

definition pysnow_Client :: "string \<Rightarrow> string \<Rightarrow> string \<Rightarrow> error + unit" where
  "pysnow_Client inst user password =
     (if inst = [] \<or> user = [] \<or> password = [] then Inl InvalidUsage else Inr ())"

text \<open>
  \<^verbatim>\<open>c.resource(api_path=p)\<close> validates \<^verbatim>\<open>p\<close> and the base path \<^verbatim>\<open>/api/now\<close> against the
  pattern \<^verbatim>\<open>^/(?:[._a-zA-Z0-9-]/?)+[^/]$\<close> and raises InvalidUsage when either fails: a
  slash, then one or more units (a character of the class, optionally followed by a
  slash), then one character that is not a slash, at the end of the string or just
  before a final newline. \<open>units_last seen s\<close> matches \<open>s\<close> against the units and the last
  character, \<open>seen\<close> telling whether a unit has been read.
\<close>

definition path_char :: "char \<Rightarrow> bool" where
  "path_char c =
     (c \<in> set ''._abcdefghijklmnopqrstuvwxyzABCDEFGHIJKLMNOPQRSTUVWXYZ0123456789-'')"

fun units_last :: "bool \<Rightarrow> string \<Rightarrow> bool" where
  "units_last seen [] = False"
| "units_last seen (c # s) =
     ((seen \<and> c \<noteq> CHR ''/'' \<and> (s = [] \<or> s = [CHR 0x0A]))
      \<or> (path_char c
          \<and> (units_last True s
             \<or> (case s of [] \<Rightarrow> False | d # s' \<Rightarrow> d = CHR ''/'' \<and> units_last True s'))))"

definition validate_path :: "string \<Rightarrow> bool" where
  "validate_path p = (case p of [] \<Rightarrow> False | c # s \<Rightarrow> c = CHR ''/'' \<and> units_last False s)"

definition pysnow_resource :: "string \<Rightarrow> error + unit" where
  "pysnow_resource p =
     (if validate_path p \<and> validate_path ''/api/now'' then Inr () else Inl InvalidUsage)"

subsection \<open>The module's functions\<close>

text \<open>The resource path \<^verbatim>\<open>'/table/{}'.format(tablename)\<close>.\<close>

definition api_path :: "string \<Rightarrow> string" where
  "api_path tablename = ''/table/'' @ tablename"

text \<open>\<^verbatim>\<open>_client_for_table\<close>: \<^verbatim>\<open>config.get('service_now')\<close> is the section, or the empty
  string when it is absent, which cannot be indexed by a key (TypeError); a missing key
  is a KeyError. Then the client is built and the resource requested for the path of
  the table. The handle of a resource is the table name.\<close>

definition client_for_table :: "config \<Rightarrow> string \<Rightarrow> error + string" where
  "client_for_table cfg tablename =
     (case cfg of
        None \<Rightarrow> Inl TypeError
      | Some d \<Rightarrow>
          (case map_of d ''instance'' of
             None \<Rightarrow> Inl (KeyError ''instance'')
           | Some i \<Rightarrow>
               (case map_of d ''username'' of
                  None \<Rightarrow> Inl (KeyError ''username'')
                | Some u \<Rightarrow>
                    (case map_of d ''password'' of
                       None \<Rightarrow> Inl (KeyError ''password'')
                     | Some p \<Rightarrow>
                         (case pysnow_Client i u p of
                            Inl e \<Rightarrow> Inl e
                          | Inr _ \<Rightarrow>
                              (case pysnow_resource (api_path tablename) of
                                 Inl e \<Rightarrow> Inl e
                               | Inr _ \<Rightarrow> Inr tablename))))))"

text \<open>\<^verbatim>\<open>_get_response\<close>\<close>

definition get_response :: "config \<Rightarrow> string \<Rightarrow> query \<Rightarrow> world \<Rightarrow> (error + response) \<times> world" where
  "get_response cfg tablename kwargs w =
     (case client_for_table cfg tablename of
        Inl e \<Rightarrow> (Inl e, w)
      | Inr table_client \<Rightarrow>
          (case resource_get table_client kwargs w of (resp, w') \<Rightarrow> (Inr resp, w')))"

definition get_record :: "config \<Rightarrow> string \<Rightarrow> query \<Rightarrow> world \<Rightarrow> (error + snow_record option) \<times> world" where
  "get_record cfg tablename kwargs w =
     (case get_response cfg tablename kwargs w of
        (Inl e, w') \<Rightarrow> (Inl e, w')
      | (Inr resp, w') \<Rightarrow> (response_one_or_none resp, w'))"

definition get_records :: "config \<Rightarrow> string \<Rightarrow> int \<Rightarrow> query \<Rightarrow> world \<Rightarrow> (error + snow_record list) \<times> world" where
  "get_records cfg tablename max_results kwargs w =
     (case client_for_table cfg tablename of
        Inl e \<Rightarrow> (Inl e, w)
      | Inr table_client \<Rightarrow>
          (case resource_get table_client kwargs w of (resp, w') \<Rightarrow>
             (case islice (response_all resp) max_results of
                Inl e \<Rightarrow> (Inl e, w')
              | Inr (records, k) \<Rightarrow> (Inr records, w'\<lparr>pulled := pulled w' + k\<rparr>))))"

text \<open>\<^verbatim>\<open>max_results\<close> defaults to 10.\<close>

definition get_records_default :: "config \<Rightarrow> string \<Rightarrow> query \<Rightarrow> world \<Rightarrow> (error + snow_record list) \<times> world" where
  "get_records_default cfg tablename kwargs w = get_records cfg tablename 10 kwargs w"

text \<open>\<^verbatim>\<open>update_record\<close>. The call \<^verbatim>\<open>_get_response(tablename, **query)\<close> is a TypeError
  when the key of the query is \<^verbatim>\<open>tablename\<close> itself (the parameter would get two
  values). A function that ends without \<^verbatim>\<open>return\<close> returns None.\<close>

definition update_record :: "config \<Rightarrow> string \<Rightarrow> string \<Rightarrow> query \<Rightarrow> world \<Rightarrow> (error + snow_record option) \<times> world" where
  "update_record cfg tablename query_string payload w =
     (let query_parts = split CHR ''='' query_string in
      case index query_parts 0 of
        Inl e \<Rightarrow> (Inl e, w)
      | Inr k \<Rightarrow>
          (case index query_parts 1 of
             Inl e \<Rightarrow> (Inl e, w)
           | Inr v \<Rightarrow>
               (if k = ''tablename'' then (Inl TypeError, w)
                else
                  (case get_response cfg tablename [(k, v)] w of
                     (Inl e, w') \<Rightarrow> (Inl e, w')
                   | (Inr record, w') \<Rightarrow>
                       (if response_truthy record then
                          (case response_update record payload w' of
                             (Inl e, w'') \<Rightarrow> (Inl e, w'')
                           | (Inr resp, w'') \<Rightarrow>
                               (case response_one resp of
                                  Inl e \<Rightarrow> (Inl e, w'')
                                | Inr r \<Rightarrow> (Inr (Some r), w'')))
                        else (Inr None, w'))))))"

definition get_incident :: "config \<Rightarrow> string \<Rightarrow> string \<Rightarrow> world \<Rightarrow> (error + snow_record) \<times> world" where
  "get_incident cfg incident_number key w =
     (case client_for_table cfg ''incident'' of
        Inl e \<Rightarrow> (Inl e, w)
      | Inr incident \<Rightarrow>
          (case resource_get incident [(key, incident_number)] w of (ret, w') \<Rightarrow>
             response_first ret w'))"

text \<open>\<^verbatim>\<open>key\<close> defaults to \<^verbatim>\<open>number\<close>.\<close>

definition get_incident_default :: "config \<Rightarrow> string \<Rightarrow> world \<Rightarrow> (error + snow_record) \<times> world" where
  "get_incident_default cfg incident_number w = get_incident cfg incident_number ''number'' w"

subsection \<open>Fixtures\<close>

text \<open>The configuration of the module's own documentation, and a remote system with three
  incidents, two of which share a number.\<close>

definition example_config :: config where
  "example_config =
     Some [(''username'', ''admin''), (''password'', ''a_secure-password''),
           (''instance'', ''dev78478'')]"

definition inc1 :: snow_record where
  "inc1 = \<lparr>sys_id = ''id1'', attrs = [(''number'', ''INC23301''), (''stage'', ''new'')]\<rparr>"

definition inc2 :: snow_record where
  "inc2 = \<lparr>sys_id = ''id2'', attrs = [(''number'', ''INC23302''), (''stage'', ''new'')]\<rparr>"

definition inc3 :: snow_record where
  "inc3 = \<lparr>sys_id = ''id3'', attrs = [(''number'', ''INC23302''), (''stage'', ''accepted'')]\<rparr>"

definition example_world :: world where
  "example_world =
     \<lparr>tables = (\<lambda>t. if t = ''incident'' then [inc1, inc2, inc3] else []),
      calls = [], pulled = 0\<rparr>"

text \<open>A second remote system: the audit table, whose records carry a field named
  \<^verbatim>\<open>tablename\<close>; exactly one record has \<^verbatim>\<open>tablename == 'incident'\<close>.\<close>

definition aud1 :: snow_record where
  "aud1 = \<lparr>sys_id = ''au1'', attrs = [(''tablename'', ''incident''), (''reason'', ''none'')]\<rparr>"

definition aud2 :: snow_record where
  "aud2 = \<lparr>sys_id = ''au2'', attrs = [(''tablename'', ''problem''), (''reason'', ''none'')]\<rparr>"

definition audit_world :: world where
  "audit_world =
     \<lparr>tables = (\<lambda>t. if t = ''sys_audit'' then [aud1, aud2] else []),
      calls = [], pulled = 0\<rparr>"

section \<open>Properties\<close>

subsection \<open>Splitting and slicing\<close>

lemma split_not_Nil: "split c s \<noteq> []"
  by (induction s) (auto split: list.splits)

lemma split_no_sep: "c \<notin> set s \<Longrightarrow> split c s = [s]"
  by (induction s) auto

lemma split_sep:
  "c \<in> set s \<Longrightarrow>
   split c s = takeWhile (\<lambda>x. x \<noteq> c) s # split c (tl (dropWhile (\<lambda>x. x \<noteq> c) s))"
  by (induction s) (auto split: list.splits)

lemma hd_split: "hd (split c s) = takeWhile (\<lambda>x. x \<noteq> c) s"
  by (induction s) (auto simp: split_not_Nil split: list.splits)

text \<open>The first two pieces of a string that contains the separator.\<close>

lemma split_two:
  assumes "c \<in> set s"
  shows "\<exists>rest. split c s = takeWhile (\<lambda>x. x \<noteq> c) s
            # takeWhile (\<lambda>x. x \<noteq> c) (tl (dropWhile (\<lambda>x. x \<noteq> c) s)) # rest"
proof -
  let ?r = "tl (dropWhile (\<lambda>x. x \<noteq> c) s)"
  obtain p ps where "split c ?r = p # ps"
    using split_not_Nil [of c ?r] by (cases "split c ?r") auto
  moreover from this have "p = takeWhile (\<lambda>x. x \<noteq> c) ?r"
    using hd_split [of c ?r] by simp
  ultimately show ?thesis using split_sep [OF assms] by simp
qed

lemma islice_list_take: "islice_list n xs = (take n xs, min n (length xs))"
  by (induction n xs rule: islice_list.induct) auto

subsection \<open>Configuration and resource paths\<close>

text \<open>The module is loaded exactly when the three values are non-empty (and pysnow was
  imported). A loaded module can build its client; whether it gets the resource depends
  on the path of the table alone.\<close>

lemma virtual_loaded:
  "virtual cfg True = VName virtualname \<longleftrightarrow>
   config_get cfg ''username'' \<noteq> [] \<and> config_get cfg ''password'' \<noteq> []
     \<and> config_get cfg ''instance'' \<noteq> []"
  by (simp add: virtual_def)

lemma base_path_valid: "validate_path ''/api/now''"
  by (simp add: validate_path_def path_char_def)

lemma loaded_client:
  "virtual cfg True = VName virtualname \<Longrightarrow> validate_path (api_path t) \<Longrightarrow>
   client_for_table cfg t = Inr t"
  by (auto simp: virtual_loaded config_get_def client_for_table_def pysnow_Client_def
      pysnow_resource_def base_path_valid split: option.splits)

lemma loaded_client_invalid:
  "virtual cfg True = VName virtualname \<Longrightarrow> \<not> validate_path (api_path t) \<Longrightarrow>
   client_for_table cfg t = Inl InvalidUsage"
  by (auto simp: virtual_loaded config_get_def client_for_table_def pysnow_Client_def
      pysnow_resource_def split: option.splits)

lemma example_config_loaded: "virtual example_config True = VName virtualname"
  by (simp add: virtual_def example_config_def config_get_def)

lemma incident_path_valid: "validate_path (api_path ''incident'')"
  by (simp add: validate_path_def api_path_def path_char_def)

text \<open>A table name with a space in it does not give a valid path.\<close>

lemma my_table_path_invalid: "\<not> validate_path (api_path ''my table'')"
  by (simp add: validate_path_def api_path_def path_char_def)

text \<open>A value is absent or empty exactly when \<open>config_get\<close> yields the empty string.\<close>

lemma config_get_empty:
  "config_get cfg k = [] \<longleftrightarrow>
   cfg = None \<or> (\<exists>d. cfg = Some d \<and> (map_of d k = None \<or> map_of d k = Some []))"
  by (auto simp: config_get_def split: option.splits)

subsection \<open>Responses\<close>

text \<open>The limit of the request keeps an empty result empty, a single record single, and
  two or more records two or more, and it keeps the first record first.\<close>

lemma response_records_Nil: "select w t q = [] \<Longrightarrow> response_records w t q = []"
  by (simp add: response_records_def)

lemma response_records_Cons:
  "select w t q = x # xs \<Longrightarrow> response_records w t q = x # take (default_limit - 1) xs"
  by (simp add: response_records_def default_limit_def)

lemma response_records_single: "select w t q = [r] \<Longrightarrow> response_records w t q = [r]"
  by (simp add: response_records_Cons)

lemma response_one_records:
  "response_one \<lparr>r_table = t, r_items = response_records w t q\<rparr> =
     (case select w t q of
        [] \<Rightarrow> Inl NoResults
      | [x] \<Rightarrow> Inr x
      | _ \<Rightarrow> Inl MultipleResults)"
  by (simp add: response_one_def response_records_def default_limit_def split: list.splits)

lemma select_calls [simp]: "select (w\<lparr>calls := cs\<rparr>) t q = select w t q"
  by (simp add: select_def)

lemma response_records_calls [simp]:
  "response_records (w\<lparr>calls := cs\<rparr>) t q = response_records w t q"
  by (simp add: response_records_def)

subsection \<open>Queries on the fixtures\<close>

lemma sel1: "select example_world ''incident'' [(''number'', ''INC23301'')] = [inc1]"
  by (simp add: select_def example_world_def matches_def field_def inc1_def inc2_def inc3_def)

lemma sel0: "select example_world ''incident'' [(''number'', ''INC0'')] = []"
  by (simp add: select_def example_world_def matches_def field_def inc1_def inc2_def inc3_def)

lemma sel2: "select example_world ''incident'' [(''number'', ''INC23302'')] = [inc2, inc3]"
  by (simp add: select_def example_world_def matches_def field_def inc1_def inc2_def inc3_def)

lemma sel_ab: "select example_world ''incident'' [(''a'', ''b'')] = []"
  by (simp add: select_def example_world_def matches_def field_def inc1_def inc2_def inc3_def)

lemma sel_all: "select example_world ''incident'' [] = [inc1, inc2, inc3]"
  by (simp add: select_def example_world_def matches_def)

lemma sel_my_table: "select example_world ''my table'' q = []"
  by (simp add: select_def example_world_def)

lemma sel_audit: "select audit_world ''sys_audit'' [(''tablename'', ''incident'')] = [aud1]"
  by (simp add: select_def audit_world_def matches_def field_def aud1_def aud2_def)

subsection \<open>Payloads and unique identifiers\<close>

lemma map_of_fold_update:
  "map_of (fold (\<lambda>(k, v). AList.update k v) p al) = map_of al ++ map_of (rev p)"
proof (induction p arbitrary: al)
  case Nil
  then show ?case by simp
next
  case (Cons kv p)
  obtain k v where kv: "kv = (k, v)" by (cases kv)
  show ?case
    by (simp add: kv Cons.IH update_conv' map_add_def fun_eq_iff split: option.splits)
qed

lemma field_apply_payload:
  "field (apply_payload p r) f =
     (if f = ''sys_id'' then Some (sys_id r) else (map_of (attrs r) ++ map_of (rev p)) f)"
  by (simp add: field_def apply_payload_def map_of_fold_update)

lemma field_apply_payload_other:
  "f \<notin> fst ` set p \<Longrightarrow> field (apply_payload p r) f = field r f"
proof -
  assume "f \<notin> fst ` set p"
  then have "map_of (rev p) f = None"
    by (simp add: map_of_eq_None_iff)
  then show ?thesis
    by (simp add: field_apply_payload map_add_def) (simp add: field_def)
qed

lemma field_apply_payload_set:
  "distinct (map fst p) \<Longrightarrow> (f, x) \<in> set p \<Longrightarrow> f \<noteq> ''sys_id'' \<Longrightarrow>
   field (apply_payload p r) f = Some x"
  by (simp add: field_apply_payload map_add_def distinct_rev rev_map [symmetric])

lemma sys_id_apply_payload: "sys_id (apply_payload p r) = sys_id r"
  by (simp add: apply_payload_def)

lemma filter_unique:
  "distinct (map f xs) \<Longrightarrow> r \<in> set xs \<Longrightarrow> filter (\<lambda>x. f x = f r) xs = [r]"
proof (induction xs)
  case Nil
  then show ?case by simp
next
  case (Cons a xs)
  show ?case
  proof (cases "a = r")
    case True
    with Cons.prems have "f r \<notin> f ` set xs" by simp
    then have "filter (\<lambda>x. f x = f r) xs = []"
      by (simp add: filter_empty_conv image_iff) metis
    with True show ?thesis by simp
  next
    case False
    with Cons.prems have "f a \<noteq> f r" by auto
    with Cons False show ?thesis by simp
  qed
qed

lemma select_sys_id:
  assumes "distinct (map sys_id (tables w t))" and "r \<in> set (tables w t)"
  shows "select w t [(''sys_id'', sys_id r)] = [r]"
proof -
  have "matches [(''sys_id'', sys_id r)] = (\<lambda>x. sys_id x = sys_id r)"
    by (simp add: matches_def field_def fun_eq_iff)
  then show ?thesis
    using filter_unique [OF assms] by (simp add: select_def)
qed

subsection \<open>Runs of \<^verbatim>\<open>update_record\<close>\<close>

text \<open>Requests are only ever added to the log.\<close>

lemma response_update_calls:
  "\<exists>cs. calls (snd (response_update r p w)) = calls w @ cs"
  by (simp add: response_update_def resource_update_def resource_get_def remote_put_def
      split: sum.splits prod.splits)

text \<open>The run on a query that selects exactly one record: the lookup, the library's own
  lookup by \<^verbatim>\<open>sys_id\<close>, and the PUT request.\<close>

lemma update_record_one:
  assumes loaded: "virtual cfg True = VName virtualname"
    and valid: "validate_path (api_path tablename)"
    and sep: "CHR ''='' \<in> set query_string"
    and k: "k = takeWhile (\<lambda>c. c \<noteq> CHR ''='') query_string"
    and v: "v = takeWhile (\<lambda>c. c \<noteq> CHR ''='')
                  (tl (dropWhile (\<lambda>c. c \<noteq> CHR ''='') query_string))"
    and key: "k \<noteq> ''tablename''"
    and one: "select w tablename [(k, v)] = [r]"
    and ids: "distinct (map sys_id (tables w tablename))"
  shows "update_record cfg tablename query_string payload w =
           (Inr (Some (apply_payload payload r)),
            w\<lparr>tables := (tables w)(tablename :=
                  map (\<lambda>x. if sys_id x = sys_id r then apply_payload payload x else x)
                      (tables w tablename)),
              calls := calls w @ [Get tablename [(k, v)], Get tablename [(''sys_id'', sys_id r)],
                                  Put tablename (sys_id r) payload]\<rparr>)"
proof -
  obtain rest where sp: "split CHR ''='' query_string = k # v # rest"
    using split_two [OF sep] k v by auto
  have "r \<in> set (select w tablename [(k, v)])" using one by simp
  then have mem: "r \<in> set (tables w tablename)" by (simp add: select_def)
  have s2: "select w tablename [(''sys_id'', sys_id r)] = [r]"
    using select_sys_id [OF ids mem] .
  show ?thesis
    using key
    by (simp add: update_record_def sp index_def get_response_def
        loaded_client [OF loaded valid] resource_get_def response_records_single [OF one]
        response_truthy_def response_update_def response_one_def resource_update_def
        response_records_single [OF s2] remote_put_def)
qed

text \<open>With a key other than \<^verbatim>\<open>tablename\<close>, a valid table and unique \<^verbatim>\<open>sys_id\<close>s, the
  update of the single matching record is returned and stored. The update is partial:
  the \<^verbatim>\<open>sys_id\<close> is kept, every field the payload names has the payload's value, every
  other field keeps its value.\<close>

lemma update_record_applies_payload:
  assumes loaded: "virtual cfg True = VName virtualname"
    and valid: "validate_path (api_path tablename)"
    and sep: "CHR ''='' \<in> set query_string"
    and k: "k = takeWhile (\<lambda>c. c \<noteq> CHR ''='') query_string"
    and v: "v = takeWhile (\<lambda>c. c \<noteq> CHR ''='')
                  (tl (dropWhile (\<lambda>c. c \<noteq> CHR ''='') query_string))"
    and key: "k \<noteq> ''tablename''"
    and one: "select w tablename [(k, v)] = [r]"
    and ids: "distinct (map sys_id (tables w tablename))"
  shows "fst (update_record cfg tablename query_string payload w)
           = Inr (Some (apply_payload payload r))
       \<and> tables (snd (update_record cfg tablename query_string payload w)) tablename
           = map (\<lambda>x. if sys_id x = sys_id r then apply_payload payload x else x)
               (tables w tablename)
       \<and> sys_id (apply_payload payload r) = sys_id r
       \<and> (distinct (map fst payload) \<and> (f, x) \<in> set payload \<and> f \<noteq> ''sys_id''
            \<longrightarrow> field (apply_payload payload r) f = Some x)
       \<and> (g \<notin> fst ` set payload \<longrightarrow> field (apply_payload payload r) g = field r g)"
  using update_record_one [OF assms, of payload]
  by (simp add: sys_id_apply_payload field_apply_payload_other field_apply_payload_set)

text \<open>The run on a query that selects no record: the guard \<^verbatim>\<open>if record:\<close> tests the
  response object, which is true, so \<^verbatim>\<open>record.update\<close> is called and its \<^verbatim>\<open>one()\<close>
  raises NoResults. Only the lookup was sent.\<close>

lemma update_record_none:
  assumes loaded: "virtual cfg True = VName virtualname"
    and valid: "validate_path (api_path tablename)"
    and sep: "CHR ''='' \<in> set query_string"
    and k: "k = takeWhile (\<lambda>c. c \<noteq> CHR ''='') query_string"
    and v: "v = takeWhile (\<lambda>c. c \<noteq> CHR ''='')
                  (tl (dropWhile (\<lambda>c. c \<noteq> CHR ''='') query_string))"
    and key: "k \<noteq> ''tablename''"
    and none: "select w tablename [(k, v)] = []"
  shows "update_record cfg tablename query_string payload w =
           (Inl NoResults, w\<lparr>calls := calls w @ [Get tablename [(k, v)]]\<rparr>)"
proof -
  obtain rest where sp: "split CHR ''='' query_string = k # v # rest"
    using split_two [OF sep] k v by auto
  show ?thesis
    using key
    by (simp add: update_record_def sp index_def get_response_def
        loaded_client [OF loaded valid] resource_get_def response_records_Nil [OF none]
        response_truthy_def response_update_def response_one_def)
qed

text \<open>The run on a query whose key is \<^verbatim>\<open>tablename\<close>: the call
  \<^verbatim>\<open>_get_response(tablename, **query)\<close> cannot bind its arguments.\<close>

lemma update_record_key_collision:
  assumes sep: "CHR ''='' \<in> set query_string"
    and key: "takeWhile (\<lambda>c. c \<noteq> CHR ''='') query_string = ''tablename''"
  shows "update_record cfg tablename query_string payload w = (Inl TypeError, w)"
proof -
  obtain v rest where sp: "split CHR ''='' query_string = ''tablename'' # v # rest"
    using split_two [OF sep] key by auto
  show ?thesis
    by (simp add: update_record_def sp index_def)
qed

subsection \<open>Claims\<close>

text \<open>
  C1, as stated, fails: no record of the fixture matches on the table name
  \<^verbatim>\<open>my table\<close>, and \<^verbatim>\<open>get_record\<close> does not return a null result but raises
  InvalidUsage, with no request sent.
\<close>

theorem get_record_invalid_table_counterexample:
  "select example_world ''my table'' [(''number'', ''INC0'')] = []
   \<and> get_record example_config ''my table'' [(''number'', ''INC0'')] example_world
       = (Inl InvalidUsage, example_world)"
  by (simp add: sel_my_table get_record_def get_response_def
      loaded_client_invalid [OF example_config_loaded my_table_path_invalid])

text \<open>
  C1, amended. With a loaded module and a table name whose resource path passes the
  client's validation, \<^verbatim>\<open>get_record\<close> returns the matching record when the filter
  selects exactly one, returns None when it selects none, and raises MultipleResults (the
  library's ambiguity error, which is neither None nor NoResults) when it selects two or
  more. With a table name whose path fails the validation, \<^verbatim>\<open>get_record\<close> raises
  InvalidUsage and sends no request.
\<close>

theorem get_record_cases:
  assumes "virtual cfg True = VName virtualname"
  shows "(validate_path (api_path tablename) \<longrightarrow>
            (select w tablename kwargs = [r] \<longrightarrow>
               fst (get_record cfg tablename kwargs w) = Inr (Some r))
          \<and> (select w tablename kwargs = [] \<longrightarrow>
               fst (get_record cfg tablename kwargs w) = Inr None)
          \<and> (2 \<le> length (select w tablename kwargs) \<longrightarrow>
               fst (get_record cfg tablename kwargs w) = Inl MultipleResults))
       \<and> (\<not> validate_path (api_path tablename) \<longrightarrow>
            get_record cfg tablename kwargs w = (Inl InvalidUsage, w))"
proof (cases "validate_path (api_path tablename)")
  case True
  then show ?thesis
    using assms
    by (auto simp: get_record_def get_response_def loaded_client resource_get_def
        response_one_or_none_def response_one_records split: list.splits)
next
  case False
  then show ?thesis
    using assms
    by (simp add: get_record_def get_response_def loaded_client_invalid)
qed

theorem get_record_cases_witness:
  "virtual example_config True = VName virtualname
   \<and> validate_path (api_path ''incident'')
   \<and> select example_world ''incident'' [(''number'', ''INC23301'')] = [inc1]
   \<and> fst (get_record example_config ''incident'' [(''number'', ''INC23301'')] example_world)
       = Inr (Some inc1)
   \<and> select example_world ''incident'' [(''number'', ''INC0'')] = []
   \<and> fst (get_record example_config ''incident'' [(''number'', ''INC0'')] example_world)
       = Inr None
   \<and> 2 \<le> length (select example_world ''incident'' [(''number'', ''INC23302'')])
   \<and> fst (get_record example_config ''incident'' [(''number'', ''INC23302'')] example_world)
       = Inl MultipleResults
   \<and> \<not> validate_path (api_path ''my table'')
   \<and> get_record example_config ''my table'' [] example_world = (Inl InvalidUsage, example_world)"
  using example_config_loaded incident_path_valid my_table_path_invalid sel1 sel0 sel2
    get_record_cases [OF example_config_loaded, of "''incident''" example_world
      "[(''number'', ''INC23301'')]" inc1]
    get_record_cases [OF example_config_loaded, of "''incident''" example_world
      "[(''number'', ''INC0'')]" inc1]
    get_record_cases [OF example_config_loaded, of "''incident''" example_world
      "[(''number'', ''INC23302'')]" inc1]
    get_record_cases [OF example_config_loaded, of "''my table''" example_world "[]" inc1]
  by simp

text \<open>
  C2. The run of \<^verbatim>\<open>update_record\<close> on a filter that selects no record of the fixture: it
  does not return None but raises NoResults. The lookup is the only request sent; no update
  request is sent.
\<close>

theorem update_record_none_raises:
  "select example_world ''incident'' [(''number'', ''INC0'')] = []
   \<and> update_record example_config ''incident'' ''number=INC0'' [(''stage'', ''accepted'')]
        example_world
       = (Inl NoResults, example_world\<lparr>calls := [Get ''incident'' [(''number'', ''INC0'')]]\<rparr>)"
proof -
  have c: "calls example_world = []" by (simp add: example_world_def)
  show ?thesis
    using update_record_none [OF example_config_loaded incident_path_valid _ refl refl,
        of "''number=INC0''" example_world "[(''stage'', ''accepted'')]"] sel0
    by (simp add: c)
qed

text \<open>
  C3, as stated, fails: \<^verbatim>\<open>max_results = 2 ** 63\<close> is not negative, yet
  \<^verbatim>\<open>get_records\<close> returns no list but raises the ValueError of \<^verbatim>\<open>islice\<close>.
\<close>

theorem get_records_maxsize_counterexample:
  "(0 :: int) \<le> 9223372036854775808
   \<and> fst (get_records example_config ''incident'' 9223372036854775808 [] example_world)
       = Inl ValueError"
  by (simp add: get_records_def
      loaded_client [OF example_config_loaded incident_path_valid]
      resource_get_def islice_def sys_maxsize_def)

text \<open>
  C3, amended. With a loaded module, a table name whose resource path passes the
  client's validation, and \<^verbatim>\<open>0 <= max_results = n <= sys.maxsize\<close>, \<^verbatim>\<open>get_records\<close> returns
  the first \<open>n\<close> records of the sequence the remote system yields for the request, in its
  order, which are \<open>min n m\<close> records for a sequence of length \<open>m\<close>, and draws exactly
  \<open>min n m\<close> records from the stream, so never more than \<open>n\<close>. With \<open>n\<close> above
  \<^verbatim>\<open>sys.maxsize\<close> it raises the ValueError of \<^verbatim>\<open>islice\<close>. With a table name whose path
  fails the validation it raises InvalidUsage and sends no request.
\<close>

theorem get_records_truncates:
  assumes "virtual cfg True = VName virtualname" and "0 \<le> n"
  shows "(validate_path (api_path tablename) \<and> n \<le> sys_maxsize \<longrightarrow>
            fst (get_records cfg tablename n kwargs w)
              = Inr (take (nat n) (response_records w tablename kwargs))
          \<and> length (take (nat n) (response_records w tablename kwargs))
              = min (nat n) (length (response_records w tablename kwargs))
          \<and> pulled (snd (get_records cfg tablename n kwargs w))
              = pulled w + min (nat n) (length (response_records w tablename kwargs))
          \<and> pulled (snd (get_records cfg tablename n kwargs w)) - pulled w \<le> nat n)
       \<and> (validate_path (api_path tablename) \<and> sys_maxsize < n \<longrightarrow>
            fst (get_records cfg tablename n kwargs w) = Inl ValueError)
       \<and> (\<not> validate_path (api_path tablename) \<longrightarrow>
            get_records cfg tablename n kwargs w = (Inl InvalidUsage, w))"
proof (cases "validate_path (api_path tablename)")
  case True
  then show ?thesis
    using assms
    by (auto simp: get_records_def loaded_client resource_get_def islice_def
        islice_list_take response_all_def)
next
  case False
  then show ?thesis
    using assms
    by (simp add: get_records_def loaded_client_invalid)
qed

theorem get_records_truncates_witness:
  "virtual example_config True = VName virtualname \<and> (0 :: int) \<le> 2
   \<and> validate_path (api_path ''incident'') \<and> 2 \<le> sys_maxsize
   \<and> fst (get_records example_config ''incident'' 2 [] example_world) = Inr [inc1, inc2]
   \<and> pulled (snd (get_records example_config ''incident'' 2 [] example_world)) = 2
   \<and> \<not> validate_path (api_path ''my table'')
   \<and> get_records example_config ''my table'' 2 [] example_world
       = (Inl InvalidUsage, example_world)"
proof -
  have h: "(0 :: int) \<le> 2" by simp
  have m: "(2 :: int) \<le> sys_maxsize" by (simp add: sys_maxsize_def)
  have s: "response_records example_world ''incident'' [] = [inc1, inc2, inc3]"
    by (simp add: response_records_def sel_all default_limit_def)
  have p: "pulled example_world = 0"
    by (simp add: example_world_def)
  show ?thesis
    using example_config_loaded h m incident_path_valid my_table_path_invalid
      get_records_truncates [OF example_config_loaded h, of "''incident''" "[]" example_world]
      get_records_truncates [OF example_config_loaded h, of "''my table''" "[]" example_world]
    by (simp add: s p)
qed

text \<open>
  C4, as stated, fails: the value is not everything after the first \<^verbatim>\<open>=\<close>. On
  \<^verbatim>\<open>a=b=c\<close> the filter sent is \<^verbatim>\<open>a = b\<close>, not \<^verbatim>\<open>a = b=c\<close>.
\<close>

theorem update_record_first_equals_counterexample:
  "CHR ''='' \<in> set ''a=b=c''
   \<and> calls (snd (update_record example_config ''incident'' ''a=b=c'' [] example_world))
       = [Get ''incident'' [(''a'', ''b'')]]
   \<and> calls (snd (update_record example_config ''incident'' ''a=b=c'' [] example_world))
       \<noteq> [Get ''incident'' [(''a'', ''b=c'')]]"
proof -
  have c: "calls example_world = []" by (simp add: example_world_def)
  have "update_record example_config ''incident'' ''a=b=c'' [] example_world
          = (Inl NoResults, example_world\<lparr>calls := [Get ''incident'' [(''a'', ''b'')]]\<rparr>)"
    using update_record_none [OF example_config_loaded incident_path_valid _ refl refl,
        of "''a=b=c''" example_world "[]"] sel_ab
    by (simp add: c)
  then show ?thesis by simp
qed

text \<open>
  C4, amended. \<^verbatim>\<open>update_record\<close> cuts the query string at every \<^verbatim>\<open>=\<close> and uses the first
  two pieces. For a query string with at least one \<^verbatim>\<open>=\<close> whose key, the text before the
  first \<^verbatim>\<open>=\<close>, is not \<^verbatim>\<open>tablename\<close>, the value is the text between the first \<^verbatim>\<open>=\<close> and the
  next one (or the end of the string when there is no other). With a loaded module and
  a table name whose resource path passes the client's validation, the first request
  sent is the lookup with that single pair as its filter; with a table name whose path
  fails the validation, InvalidUsage is raised and no request is sent.
\<close>

theorem update_record_filter:
  assumes loaded: "virtual cfg True = VName virtualname"
    and sep: "CHR ''='' \<in> set query_string"
    and key: "takeWhile (\<lambda>c. c \<noteq> CHR ''='') query_string \<noteq> ''tablename''"
  shows "(validate_path (api_path tablename) \<longrightarrow>
            (\<exists>cs. calls (snd (update_record cfg tablename query_string payload w)) =
               calls w @ Get tablename
                 [(takeWhile (\<lambda>c. c \<noteq> CHR ''='') query_string,
                   takeWhile (\<lambda>c. c \<noteq> CHR ''='')
                     (tl (dropWhile (\<lambda>c. c \<noteq> CHR ''='') query_string)))] # cs))
       \<and> (\<not> validate_path (api_path tablename) \<longrightarrow>
            update_record cfg tablename query_string payload w = (Inl InvalidUsage, w))"
proof -
  let ?k = "takeWhile (\<lambda>c. c \<noteq> CHR ''='') query_string"
  let ?v = "takeWhile (\<lambda>c. c \<noteq> CHR ''='')
              (tl (dropWhile (\<lambda>c. c \<noteq> CHR ''='') query_string))"
  let ?w = "w\<lparr>calls := calls w @ [Get tablename [(?k, ?v)]]\<rparr>"
  let ?resp = "\<lparr>r_table = tablename, r_items = response_records w tablename [(?k, ?v)]\<rparr>"
  obtain rest where sp: "split CHR ''='' query_string = ?k # ?v # rest"
    using split_two [OF sep] by auto
  show ?thesis
  proof (cases "validate_path (api_path tablename)")
    case True
    obtain cs where cs: "calls (snd (response_update ?resp payload ?w)) = calls ?w @ cs"
      using response_update_calls by blast
    have "calls (snd (update_record cfg tablename query_string payload w))
            = calls (snd (response_update ?resp payload ?w))"
      using key
      by (simp add: update_record_def sp index_def get_response_def
          loaded_client [OF loaded True] resource_get_def response_truthy_def
          split: prod.splits sum.splits)
    with cs True show ?thesis by simp
  next
    case False
    then show ?thesis
      using key
      by (simp add: update_record_def sp index_def get_response_def
          loaded_client_invalid [OF loaded False])
  qed
qed

theorem update_record_filter_witness:
  "virtual example_config True = VName virtualname
   \<and> CHR ''='' \<in> set ''a=b=c''
   \<and> validate_path (api_path ''incident'')
   \<and> (\<exists>cs. calls (snd (update_record example_config ''incident'' ''a=b=c'' [] example_world)) =
           calls example_world @ Get ''incident'' [(''a'', ''b'')] # cs)
   \<and> \<not> validate_path (api_path ''my table'')
   \<and> update_record example_config ''my table'' ''a=b=c'' [] example_world
       = (Inl InvalidUsage, example_world)"
proof -
  have h1: "CHR ''='' \<in> set ''a=b=c''" by simp
  have h2: "takeWhile (\<lambda>c. c \<noteq> CHR ''='') ''a=b=c'' \<noteq> ''tablename''" by simp
  show ?thesis
    using example_config_loaded h1 incident_path_valid my_table_path_invalid
      update_record_filter [OF example_config_loaded h1 h2, of "''incident''" "[]" example_world]
      update_record_filter [OF example_config_loaded h1 h2, of "''my table''" "[]" example_world]
    by simp
qed

text \<open>
  C5, as stated, fails: on the fixture no incident has the number \<^verbatim>\<open>INC0\<close>, and
  \<^verbatim>\<open>get_incident\<close> raises NoResults instead of returning a null result.
\<close>

theorem get_incident_none_counterexample:
  "select example_world ''incident'' [(''number'', ''INC0'')] = []
   \<and> fst (get_incident example_config ''INC0'' ''number'' example_world) = Inl NoResults"
  by (simp add: sel0 get_incident_def
      loaded_client [OF example_config_loaded incident_path_valid] resource_get_def
      response_first_def response_all_def response_records_Nil)

text \<open>
  C5, amended. With a loaded module, when no record of the incident table matches
  \<^verbatim>\<open>{key: incident_number}\<close>, \<^verbatim>\<open>get_incident\<close> raises the library's NoResults error:
  \<^verbatim>\<open>first()\<close> raises it on an empty result and \<^verbatim>\<open>get_incident\<close> does not catch it.
\<close>

theorem get_incident_none_raises:
  assumes "virtual cfg True = VName virtualname"
    and "select w ''incident'' [(key, incident_number)] = []"
  shows "fst (get_incident cfg incident_number key w) = Inl NoResults"
  using assms
  by (simp add: get_incident_def loaded_client incident_path_valid resource_get_def
      response_first_def response_all_def response_records_Nil response_records_Cons)

theorem get_incident_none_raises_witness:
  "virtual example_config True = VName virtualname
   \<and> select example_world ''incident'' [(''number'', ''INC0'')] = []
   \<and> fst (get_incident example_config ''INC0'' ''number'' example_world) = Inl NoResults"
  using example_config_loaded sel0 get_incident_none_raises [OF example_config_loaded sel0]
  by simp

text \<open>
  C6. With a loaded module, when two or more records of the incident table match
  \<^verbatim>\<open>{key: incident_number}\<close>, \<^verbatim>\<open>get_incident\<close> returns the first of them in remote order;
  no ambiguity error is raised.
\<close>

theorem get_incident_first:
  assumes "virtual cfg True = VName virtualname"
    and "select w ''incident'' [(key, incident_number)] = r1 # r2 # rest"
  shows "fst (get_incident cfg incident_number key w) = Inr r1"
  using assms
  by (simp add: get_incident_def loaded_client incident_path_valid resource_get_def
      response_first_def response_all_def response_records_Nil response_records_Cons)

theorem get_incident_first_witness:
  "virtual example_config True = VName virtualname
   \<and> select example_world ''incident'' [(''number'', ''INC23302'')] = inc2 # inc3 # []
   \<and> fst (get_incident example_config ''INC23302'' ''number'' example_world) = Inr inc2"
  using example_config_loaded sel2 get_incident_first [OF example_config_loaded sel2]
  by simp

text \<open>
  C7. The run of \<^verbatim>\<open>update_record\<close> on the audit table with the query string
  \<^verbatim>\<open>tablename=incident\<close>, whose filter selects exactly one record of the fixture: no
  update is applied and no record is returned. The key of the query collides with the
  parameter \<^verbatim>\<open>tablename\<close> of \<^verbatim>\<open>_get_response\<close>, the call raises TypeError, and nothing is
  sent.
\<close>

theorem update_record_tablename_key:
  "select audit_world ''sys_audit'' [(''tablename'', ''incident'')] = [aud1]
   \<and> update_record example_config ''sys_audit'' ''tablename=incident'' [(''reason'', ''x'')]
        audit_world
       = (Inl TypeError, audit_world)"
proof -
  have h1: "CHR ''='' \<in> set ''tablename=incident''" by simp
  have h2: "takeWhile (\<lambda>c. c \<noteq> CHR ''='') ''tablename=incident'' = ''tablename''" by simp
  show ?thesis
    using sel_audit update_record_key_collision [OF h1 h2] by simp
qed

text \<open>
  C8. When one of the three required values is absent or empty (\<open>config_get\<close> yields the
  empty string, see \<open>config_get_empty\<close>), \<^verbatim>\<open>__virtual__\<close> returns False, whether or not
  pysnow was imported. The check is a function of the configuration and the import flag
  alone: it builds no client and sends no request.
\<close>

theorem virtual_missing:
  "k \<in> {''username'', ''password'', ''instance''} \<Longrightarrow> config_get cfg k = [] \<Longrightarrow>
   virtual cfg pysnow_exists = VFalse"
  by (auto simp: virtual_def)

theorem virtual_missing_witness:
  "''password'' \<in> {''username'', ''password'', ''instance''} \<and>
   config_get (Some [(''username'', ''admin''), (''instance'', ''dev78478'')]) ''password'' = [] \<and>
   virtual (Some [(''username'', ''admin''), (''instance'', ''dev78478'')]) True = VFalse"
proof -
  have h1: "''password'' \<in> {''username'', ''password'', ''instance''}" by simp
  have h2: "config_get (Some [(''username'', ''admin''), (''instance'', ''dev78478'')]) ''password'' = []"
    by (simp add: config_get_def)
  show ?thesis using h1 h2 virtual_missing [OF h1 h2] by simp
qed

text \<open>
  C9. A query string without \<^verbatim>\<open>=\<close> makes \<^verbatim>\<open>update_record\<close> fail with the IndexError of
  \<^verbatim>\<open>query_parts[1]\<close> (no error of the module's own), and the world is untouched: the
  failure comes before the client is built and before any request is sent.
\<close>

theorem update_record_no_equals:
  "CHR ''='' \<notin> set query_string \<Longrightarrow>
   update_record cfg tablename query_string payload w = (Inl IndexError, w)"
  by (simp add: update_record_def split_no_sep index_def)

theorem update_record_no_equals_witness:
  "CHR ''='' \<notin> set ''number'' \<and>
   update_record example_config ''incident'' ''number'' [(''stage'', ''accepted'')] example_world
     = (Inl IndexError, example_world)"
proof -
  have h: "CHR ''='' \<notin> set ''number''" by simp
  show ?thesis using h update_record_no_equals [OF h] by simp
qed

text \<open>
  C10, as stated, fails: with the negative \<^verbatim>\<open>max_results = -1\<close> and the table name
  \<^verbatim>\<open>my table\<close>, \<^verbatim>\<open>get_records\<close> raises InvalidUsage, not ValueError.
\<close>

theorem get_records_negative_counterexample:
  "(- 1 :: int) < 0
   \<and> fst (get_records example_config ''my table'' (- 1) [] example_world) = Inl InvalidUsage"
  by (simp add: get_records_def
      loaded_client_invalid [OF example_config_loaded my_table_path_invalid])

text \<open>
  C10, amended. With a loaded module and a table name whose resource path passes the
  client's validation, a negative \<^verbatim>\<open>max_results\<close> makes \<^verbatim>\<open>get_records\<close> raise the
  ValueError of \<^verbatim>\<open>islice\<close>; no list, empty or full, is returned. With a table name whose
  path fails the validation, \<^verbatim>\<open>get_records\<close> raises InvalidUsage before \<^verbatim>\<open>islice\<close> is
  reached, and sends no request.
\<close>

theorem get_records_negative:
  assumes "virtual cfg True = VName virtualname" and "n < 0"
  shows "(validate_path (api_path tablename) \<longrightarrow>
            fst (get_records cfg tablename n kwargs w) = Inl ValueError)
       \<and> (\<not> validate_path (api_path tablename) \<longrightarrow>
            get_records cfg tablename n kwargs w = (Inl InvalidUsage, w))"
proof (cases "validate_path (api_path tablename)")
  case True
  then show ?thesis
    using assms
    by (simp add: get_records_def loaded_client resource_get_def islice_def)
next
  case False
  then show ?thesis
    using assms
    by (simp add: get_records_def loaded_client_invalid)
qed

theorem get_records_negative_witness:
  "virtual example_config True = VName virtualname \<and> (- 1 :: int) < 0
   \<and> validate_path (api_path ''incident'')
   \<and> fst (get_records example_config ''incident'' (- 1) [] example_world) = Inl ValueError
   \<and> \<not> validate_path (api_path ''my table'')
   \<and> get_records example_config ''my table'' (- 1) [] example_world
       = (Inl InvalidUsage, example_world)"
proof -
  have h: "(- 1 :: int) < 0" by simp
  show ?thesis
    using example_config_loaded h incident_path_valid my_table_path_invalid
      get_records_negative [OF example_config_loaded h, of "''incident''" "[]" example_world]
      get_records_negative [OF example_config_loaded h, of "''my table''" "[]" example_world]
    by simp
qed

end
